theory Spec2Isabelle
  imports Main
begin

section \<open>Process environment and the static contract table (run.ts, lines 6-26)\<close>

text \<open>
  \<^verbatim>\<open>Bun.env\<close> as the script declares it: five string variables, read and never written.
\<close>

record env =
  EXECUTION_API_KEY :: string
  NETWORK :: string
  PRIVATE_KEY :: string
  RECEIVER_ADDRESS :: string
  STAKING_API_KEY :: string

text \<open>
  The \<^verbatim>\<open>switch (Bun.env.NETWORK)\<close> of lines 16-26. \<open>Some a\<close> is a case that assigns
  \<^verbatim>\<open>contractAddr = a\<close> and breaks; \<open>None\<close> is the \<^verbatim>\<open>default\<close> case, which logs and
  exits (that part is in \<open>run\<close> below).
\<close>

definition contractAddr :: "string \<Rightarrow> string option" where
  "contractAddr network =
     (if network = ''mainnet'' then Some ''0x3f124c700fb5e741f128e28985267d44f56b242f''
      else if network = ''holesky'' then Some ''0x0b6e07c5ead5596c1f26ca2f6b97050cec853671''
      else None)"

section \<open>Decimal text of integers and decimal fractions\<close>

text \<open>
  Amounts are unbounded integers (a JavaScript \<^verbatim>\<open>bigint\<close>), written and read in base 10.
\<close>

definition digit :: "int \<Rightarrow> char" where
  "digit d = ''0123456789'' ! nat d"

definition digit_val :: "char \<Rightarrow> int option" where
  "digit_val c = map_of [(CHR ''0'', 0), (CHR ''1'', 1), (CHR ''2'', 2), (CHR ''3'', 3),
     (CHR ''4'', 4), (CHR ''5'', 5), (CHR ''6'', 6), (CHR ''7'', 7), (CHR ''8'', 8),
     (CHR ''9'', 9)] c"

function show_nat :: "int \<Rightarrow> string" where
  "show_nat n = (if n < 10 then [digit n] else show_nat (n div 10) @ [digit (n mod 10)])"
  by pat_completeness auto
termination
  by (relation "measure nat") auto

declare show_nat.simps [simp del]

text \<open>\<^verbatim>\<open>BigInt.prototype.toString()\<close>: a minus sign for a negative value, then the digits.\<close>

definition show_int :: "int \<Rightarrow> string" where
  "show_int i = (if i < 0 then CHR ''-'' # show_nat (- i) else show_nat i)"

fun read_digits :: "int \<Rightarrow> string \<Rightarrow> int option" where
  "read_digits acc [] = Some acc"
| "read_digits acc (c # cs) =
     (case digit_val c of None \<Rightarrow> None | Some d \<Rightarrow> read_digits (10 * acc + d) cs)"

definition is_digit :: "char \<Rightarrow> bool" where
  "is_digit c = (digit_val c \<noteq> None)"

definition strip_zeros :: "string \<Rightarrow> string" where
  "strip_zeros s = rev (dropWhile (\<lambda>c. c = CHR ''0'') (rev s))"

definition pad_start :: "nat \<Rightarrow> string \<Rightarrow> string" where
  "pad_start k s = replicate (k - length s) (CHR ''0'') @ s"

text \<open>
  \<open>show_decimal c d\<close> is the decimal text of the fraction \<open>c / 10 ^ d\<close>: sign, integer part
  and, when the fractional part is not zero, a point and the fractional digits without
  trailing zeros. \<open>read_decimal\<close> reads such a text back as a pair \<open>(c, d)\<close>.
\<close>

definition show_decimal :: "int \<Rightarrow> nat \<Rightarrow> string" where
  "show_decimal c d =
     (let a = \<bar>c\<bar>;
          frac = strip_zeros (pad_start d (show_nat (a mod 10 ^ d)))
      in (if c < 0 then ''-'' else '''') @ show_nat (a div 10 ^ d) @
         (if frac = [] then [] else CHR ''.'' # frac))"

definition read_decimal :: "string \<Rightarrow> (int \<times> nat) option" where
  "read_decimal s =
     (let neg = (s \<noteq> [] \<and> hd s = CHR ''-'');
          body = (if neg then tl s else s);
          ip = takeWhile (\<lambda>c. c \<noteq> CHR ''.'') body;
          fp = drop 1 (dropWhile (\<lambda>c. c \<noteq> CHR ''.'') body)
      in if ip = [] then None
         else case read_digits 0 (ip @ fp) of
                None \<Rightarrow> None
              | Some a \<Rightarrow> Some (if neg then - a else a, length fp))"

section \<open>JavaScript numbers of the script (run.ts, lines 39 and 66)\<close>

text \<open>
  The script has two number constants, \<^verbatim>\<open>0.000001\<close> and \<^verbatim>\<open>32 * 10 ** 9\<close>. A number is
  carried here as an exact decimal fraction \<open>coefficient / 10 ^ scale\<close>; the IEEE-754
  binary representation of a JavaScript number and its rounding are not represented.
  \<open>Number_toString\<close> is the plain decimal notation that JavaScript prints for magnitudes
  from \<open>10\<^sup>-\<^sup>6\<close> up to \<open>10\<^sup>2\<^sup>1\<close>, where both constants lie.
\<close>

datatype number = Number (coefficient: int) (scale: nat)

definition Number_toString :: "number \<Rightarrow> string" where
  "Number_toString x = show_decimal (coefficient x) (scale x)"

definition amountInETH :: number where
  "amountInETH = Number 1 6"

definition amountInGwei :: number where
  "amountInGwei = Number (32 * 10 ^ 9) 0"

section \<open>Errors\<close>

datatype error =
    InvalidUnit string
  | InvalidNumber
  | FractionalWei
  | WalletError string
  | RpcError string
  | FetchError nat

section \<open>Exact decimal unit conversion\<close>

text \<open>
  The argument type of \<^verbatim>\<open>web3.utils.fromWei\<close> and \<^verbatim>\<open>web3.utils.toWei\<close>, as far as the script
  uses it: a JavaScript number or a decimal string.
\<close>

datatype numbers = OfNumber number | OfString string

definition to_decimal :: "numbers \<Rightarrow> (int \<times> nat) option" where
  "to_decimal x =
     (case x of OfNumber n \<Rightarrow> Some (coefficient n, scale n) | OfString s \<Rightarrow> read_decimal s)"

text \<open>
  Modelled from the spec: the unit table of the web3 library, which is not part of the
  repository's sources. The spec names three denominations, wei, gwei and ether, at scales
  \<open>1\<close>, \<open>10\<^sup>9\<close> and \<open>10\<^sup>1\<^sup>8\<close>.
\<close>

definition unit_decimals :: "string \<Rightarrow> nat option" where
  "unit_decimals unit =
     (if unit = ''wei'' then Some 0
      else if unit = ''gwei'' then Some 9
      else if unit = ''ether'' then Some 18
      else None)"

text \<open>
  Modelled from the spec: \<^verbatim>\<open>web3.utils.fromWei\<close>, a function of the web3 library, which is
  not part of the repository's sources (run.ts only calls it). The spec asks for exact
  decimal arithmetic between the denominations: \<open>fromWei\<close> gives the decimal text of the
  amount divided by the unit's scale.
\<close>

definition fromWei :: "numbers \<Rightarrow> string \<Rightarrow> error + string" where
  "fromWei number unit =
     (case unit_decimals unit of
        None \<Rightarrow> Inl (InvalidUnit unit)
      | Some k \<Rightarrow>
          (case to_decimal number of
             None \<Rightarrow> Inl InvalidNumber
           | Some (c, d) \<Rightarrow> Inr (show_decimal c (d + k))))"

text \<open>
  Modelled from the spec: \<^verbatim>\<open>web3.utils.toWei\<close>, a function of the web3 library, which is not
  part of the repository's sources (run.ts only calls it). By the spec's exact decimal
  arithmetic, \<open>toWei\<close> gives the decimal text of the amount multiplied by the unit's
  scale; it fails when the product is not a whole number of wei.
\<close>

definition toWei :: "numbers \<Rightarrow> string \<Rightarrow> error + string" where
  "toWei number unit =
     (case unit_decimals unit of
        None \<Rightarrow> Inl (InvalidUnit unit)
      | Some k \<Rightarrow>
          (case to_decimal number of
             None \<Rightarrow> Inl InvalidNumber
           | Some (c, d) \<Rightarrow>
               if 10 ^ d dvd c * 10 ^ k then Inr (show_int (c * 10 ^ k div 10 ^ d))
               else Inl FractionalWei))"

section \<open>Requests, responses and the outside world\<close>

text \<open>The object passed to \<^verbatim>\<open>web3.eth.sendTransaction\<close> (lines 46-50 and 88-93).\<close>

record transaction =
  tx_from :: string
  tx_to :: string
  tx_value :: string
  tx_data :: "string option"

datatype receipt = Receipt string

text \<open>The body and metadata of \<^verbatim>\<open>postEthereumStakeIntent\<close> (lines 67-77).\<close>

record stake =
  amount :: string
  withdrawal_address :: string

record stake_intent_body =
  stakes :: "stake list"

record stake_intent_metadata =
  network :: string

text \<open>
  Modelled from the spec: the response type of the SDK (\<^verbatim>\<open>./types\<close> is not part of the
  repository's sources). The spec gives \<^verbatim>\<open>{ethereum: {unsigned_transaction, contract_address}}\<close>;
  the script reads \<^verbatim>\<open>data.ethereum\<close> with optional chaining, so the member may be absent.
\<close>

record ethereum_intent =
  unsigned_transaction :: string
  contract_address :: string

text \<open>
  Modelled from the spec: the \<^verbatim>\<open>data\<close> of the SDK's response, of which the script reads the
  member \<^verbatim>\<open>ethereum\<close>.
\<close>

record stake_intent_response =
  ethereum :: "ethereum_intent option"

text \<open>
  What the script cannot decide itself: the user's answers to \<^verbatim>\<open>confirm\<close>, the web3
  library (wallet, unit conversion, execution endpoint) and the staking API. Each call
  either returns or throws. The answer to a prompt is a function of its text; the three
  prompts of the script are different texts, so any sequence of answers is such a function.
  The endpoint functions take the provider URL of line 29, the staking call the API key
  set by \<^verbatim>\<open>steak.auth\<close>. \<open>utils_fromWei\<close> and \<open>utils_toWei\<close> are \<^verbatim>\<open>web3.utils.fromWei\<close> and
  \<^verbatim>\<open>web3.utils.toWei\<close> as the library at hand implements them: the properties of the script
  below hold for every such implementation.
\<close>

record world =
  confirm :: "string \<Rightarrow> bool"
  wallet_add :: "string \<Rightarrow> error + string"
  utils_fromWei :: "numbers \<Rightarrow> string \<Rightarrow> error + string"
  utils_toWei :: "numbers \<Rightarrow> string \<Rightarrow> error + string"
  getBalance :: "string \<Rightarrow> string \<Rightarrow> error + int"
  sendTransaction :: "string \<Rightarrow> transaction \<Rightarrow> error + receipt"
  postEthereumStakeIntent ::
    "string \<Rightarrow> stake_intent_body \<Rightarrow> stake_intent_metadata \<Rightarrow> error + stake_intent_response"

section \<open>Observable events and outcomes\<close>

datatype logarg = Str string | ReceiptObj receipt | IntentObj "ethereum_intent option"

datatype event =
    Log "logarg list"
  | Confirm string
  | GetBalance string string
  | SendTransaction string transaction
  | Auth string
  | PostEthereumStakeIntent stake_intent_body stake_intent_metadata
  | ProcessExit int

text \<open>
  A run ends by reaching the end of the script, by \<^verbatim>\<open>process.exit\<close>, or by an exception
  that nothing catches.
\<close>

datatype outcome = Completed | Exited int | Uncaught error

type_synonym 'a io = "event list \<times> (outcome + 'a)"

definition pure :: "'a \<Rightarrow> 'a io" where
  "pure x = ([], Inr x)"

definition andThen :: "'a io \<Rightarrow> ('a \<Rightarrow> 'b io) \<Rightarrow> 'b io" where
  "andThen m f =
     (case m of
        (t, Inl out) \<Rightarrow> (t, Inl out)
      | (t, Inr x) \<Rightarrow> (case f x of (t', r) \<Rightarrow> (t @ t', r)))"

definition log :: "logarg list \<Rightarrow> unit io" where
  "log args = ([Log args], Inr ())"

definition exit :: "int \<Rightarrow> 'a io" where
  "exit code = ([ProcessExit code], Inl (Exited code))"

text \<open>A library call that may throw, without and with an observable event.\<close>

definition attempt :: "error + 'a \<Rightarrow> 'a io" where
  "attempt r = ([], case r of Inl e \<Rightarrow> Inl (Uncaught e) | Inr x \<Rightarrow> Inr x)"

definition call :: "event \<Rightarrow> error + 'a \<Rightarrow> 'a io" where
  "call ev r = ([ev], case r of Inl e \<Rightarrow> Inl (Uncaught e) | Inr x \<Rightarrow> Inr x)"

definition ask :: "world \<Rightarrow> string \<Rightarrow> bool io" where
  "ask w prompt = ([Confirm prompt], Inr (confirm w prompt))"

definition auth :: "string \<Rightarrow> unit io" where
  "auth key = ([Auth key], Inr ())"

definition finish :: "unit io \<Rightarrow> event list \<times> outcome" where
  "finish m = (case m of (t, Inl out) \<Rightarrow> (t, out) | (t, Inr _) \<Rightarrow> (t, Completed))"

section \<open>The script (run.ts)\<close>

definition nl :: string where
  "nl = [CHR 0x0A]"

text \<open>The two banners of lines 4 and 54, as UTF-8 bytes (U+1F608 and U+1F969).\<close>

definition devils :: string where
  "devils = nl @ [CHR 0xF0, CHR 0x9F, CHR 0x98, CHR 0x88] @ '' '' @
     [CHR 0xF0, CHR 0x9F, CHR 0x98, CHR 0x88] @ '' '' @
     [CHR 0xF0, CHR 0x9F, CHR 0x98, CHR 0x88] @ nl"

definition steaks :: string where
  "steaks = nl @ '' '' @ [CHR 0xF0, CHR 0x9F, CHR 0xA5, CHR 0xA9] @ '' '' @
     [CHR 0xF0, CHR 0x9F, CHR 0xA5, CHR 0xA9] @ '' '' @
     [CHR 0xF0, CHR 0x9F, CHR 0xA5, CHR 0xA9] @ '' '' @ nl"

definition providerUrl :: "env \<Rightarrow> string" where
  "providerUrl e = ''https://svc.blockdaemon.com/ethereum/'' @ NETWORK e @
     ''/native?apiKey='' @ EXECUTION_API_KEY e"

definition sendPrompt :: "env \<Rightarrow> string" where
  "sendPrompt e = ''Send '' @ Number_toString amountInETH @ '' ETH to the receiver '' @
     RECEIVER_ADDRESS e @ '' on '' @ NETWORK e @ '' to validate the envs?''"

definition createPrompt :: "env \<Rightarrow> string \<Rightarrow> string" where
  "createPrompt e addr =
     ''Create the unsigned transaction which sends 32 ETH to the contract '' @ addr @
     '' on '' @ NETWORK e @ ''?''"

definition signPrompt :: string where
  "signPrompt = ''Sign the unsigned transaction and send the signed one?''"

text \<open>Lines 45-51: the body of \<^verbatim>\<open>if (shouldSend)\<close>, the test transfer.\<close>

definition sendToReceiver :: "env \<Rightarrow> world \<Rightarrow> string \<Rightarrow> unit io" where
  "sendToReceiver e w sender =
     andThen (log [Str (nl @ ''Sending to the receiver ...'' @ nl)]) (\<lambda>_.
     andThen (attempt (utils_toWei w (OfNumber amountInETH) ''ether'')) (\<lambda>wei.
     let tx = \<lparr>tx_from = sender, tx_to = RECEIVER_ADDRESS e, tx_value = wei, tx_data = None\<rparr> in
     andThen (call (SendTransaction (providerUrl e) tx) (sendTransaction w (providerUrl e) tx))
       (\<lambda>receipt.
     log [Str ''Receipt:'', ReceiptObj receipt, Str nl])))"

text \<open>Lines 54-94: authentication, the stake intent, and the final transaction.\<close>

definition stakeWithSteak :: "env \<Rightarrow> world \<Rightarrow> string \<Rightarrow> string \<Rightarrow> unit io" where
  "stakeWithSteak e w addr sender =
     andThen (log [Str steaks]) (\<lambda>_.
     andThen (auth (STAKING_API_KEY e)) (\<lambda>_.
     andThen (ask w (createPrompt e addr)) (\<lambda>shouldCreateUnsigned.
     andThen (if \<not> shouldCreateUnsigned then exit 0 else pure ()) (\<lambda>_.
     andThen (log [Str (nl @ ''Creating the unsigned transaction ...'' @ nl)]) (\<lambda>_.
     let body = \<lparr>stakes = [\<lparr>amount = Number_toString amountInGwei,
                              withdrawal_address = sender\<rparr>]\<rparr>;
         metadata = \<lparr>network = NETWORK e\<rparr> in
     andThen (call (PostEthereumStakeIntent body metadata)
                (postEthereumStakeIntent w (STAKING_API_KEY e) body metadata)) (\<lambda>data.
     let intent = ethereum data in
     andThen (log [Str ''Intent:'', IntentObj intent, Str nl]) (\<lambda>_.
     andThen (ask w signPrompt) (\<lambda>shouldSignAndSend.
     andThen (if \<not> shouldSignAndSend then exit 0 else pure ()) (\<lambda>_.
     andThen (log [Str (nl @ ''Processing ...'' @ nl)]) (\<lambda>_.
     andThen (attempt (utils_toWei w (OfNumber amountInGwei) ''gwei'')) (\<lambda>wei.
     let tx = \<lparr>tx_from = sender, tx_to = addr, tx_value = wei,
               tx_data = map_option unsigned_transaction intent\<rparr> in
     andThen (call (SendTransaction (providerUrl e) tx) (sendTransaction w (providerUrl e) tx))
       (\<lambda>receipt.
     log [Str ''Receipt:'', ReceiptObj receipt, Str nl]))))))))))))"

text \<open>The whole script, top to bottom.\<close>

definition run :: "env \<Rightarrow> world \<Rightarrow> event list \<times> outcome" where
  "run e w = finish (
     andThen (log [Str devils]) (\<lambda>_.
     andThen (case contractAddr (NETWORK e) of
                Some a \<Rightarrow> pure a
              | None \<Rightarrow>
                  andThen (log [Str (''Network '' @ NETWORK e @ '' not supported'')]) (\<lambda>_.
                  exit 0))
       (\<lambda>addr.
     andThen (attempt (wallet_add w (PRIVATE_KEY e))) (\<lambda>sender.
     andThen (log [Str ''Sender Address:'', Str sender, Str nl]) (\<lambda>_.
     andThen (call (GetBalance (providerUrl e) sender) (getBalance w (providerUrl e) sender))
       (\<lambda>balWei.
     andThen (attempt (utils_fromWei w (OfString (show_int balWei)) ''ether'')) (\<lambda>balance.
     andThen (log [Str (''Sender Balance: '' @ balance @ '' ETH'' @ nl)]) (\<lambda>_.
     andThen (ask w (sendPrompt e)) (\<lambda>shouldSend.
     andThen (if shouldSend then sendToReceiver e w sender else pure ()) (\<lambda>_.
     stakeWithSteak e w addr sender))))))))))"

section \<open>Observations on a trace\<close>

definition network_calls :: "event list \<Rightarrow> event list" where
  "network_calls t = filter (\<lambda>ev. case ev of
       GetBalance _ _ \<Rightarrow> True
     | SendTransaction _ _ \<Rightarrow> True
     | PostEthereumStakeIntent _ _ \<Rightarrow> True
     | _ \<Rightarrow> False) t"

definition prompts :: "event list \<Rightarrow> string list" where
  "prompts t = concat (map (\<lambda>ev. case ev of Confirm p \<Rightarrow> [p] | _ \<Rightarrow> []) t)"

definition broadcasts :: "event list \<Rightarrow> transaction list" where
  "broadcasts t = concat (map (\<lambda>ev. case ev of SendTransaction _ tx \<Rightarrow> [tx] | _ \<Rightarrow> []) t)"

definition stake_intents :: "event list \<Rightarrow> (stake_intent_body \<times> stake_intent_metadata) list" where
  "stake_intents t =
     concat (map (\<lambda>ev. case ev of PostEthereumStakeIntent b m \<Rightarrow> [(b, m)] | _ \<Rightarrow> []) t)"

section \<open>Example environments and worlds\<close>

definition env_holesky :: env where
  "env_holesky = \<lparr>EXECUTION_API_KEY = ''exec-key'', NETWORK = ''holesky'',
     PRIVATE_KEY = ''0x01'', RECEIVER_ADDRESS = ''0xreceiver'', STAKING_API_KEY = ''stake-key''\<rparr>"

definition env_sepolia :: env where
  "env_sepolia = env_holesky\<lparr>NETWORK := ''sepolia''\<rparr>"

text \<open>
  A world in which every call succeeds and the user accepts every prompt. Its unit
  conversion is the exact decimal one defined above. The staking API answers with a
  contract address that is not the one of the static table.
\<close>

definition world_yes :: world where
  "world_yes = \<lparr>confirm = (\<lambda>_. True),
     wallet_add = (\<lambda>_. Inr ''0xsender''),
     utils_fromWei = fromWei,
     utils_toWei = toWei,
     getBalance = (\<lambda>_ _. Inr (33 * 10 ^ 18)),
     sendTransaction = (\<lambda>_ _. Inr (Receipt ''0xhash'')),
     postEthereumStakeIntent = (\<lambda>_ _ _. Inr \<lparr>ethereum =
       Some \<lparr>unsigned_transaction = ''0xdeadbeef'', contract_address = ''0xother''\<rparr>\<rparr>)\<rparr>"

definition world_no :: world where
  "world_no = world_yes\<lparr>confirm := (\<lambda>_. False)\<rparr>"

definition world_no_sign :: world where
  "world_no_sign = world_yes\<lparr>confirm := (\<lambda>prompt. prompt \<noteq> signPrompt)\<rparr>"

text \<open>The pieces of the traces of the example runs on holesky.\<close>

definition holesky_addr :: string where
  "holesky_addr = ''0x0b6e07c5ead5596c1f26ca2f6b97050cec853671''"

definition trace_front :: "event list" where
  "trace_front =
     [Log [Str devils],
      Log [Str ''Sender Address:'', Str ''0xsender'', Str nl],
      GetBalance (providerUrl env_holesky) ''0xsender'',
      Log [Str (''Sender Balance: 33 ETH'' @ nl)],
      Confirm (sendPrompt env_holesky)]"

definition trace_transfer :: "event list" where
  "trace_transfer =
     [Log [Str (nl @ ''Sending to the receiver ...'' @ nl)],
      SendTransaction (providerUrl env_holesky)
        \<lparr>tx_from = ''0xsender'', tx_to = ''0xreceiver'', tx_value = ''1000000000000'',
          tx_data = None\<rparr>,
      Log [Str ''Receipt:'', ReceiptObj (Receipt ''0xhash''), Str nl]]"

definition trace_auth :: "event list" where
  "trace_auth =
     [Log [Str steaks], Auth ''stake-key'', Confirm (createPrompt env_holesky holesky_addr)]"

definition stake_request :: event where
  "stake_request = PostEthereumStakeIntent
     \<lparr>stakes = [\<lparr>amount = ''32000000000'', withdrawal_address = ''0xsender''\<rparr>]\<rparr>
     \<lparr>network = ''holesky''\<rparr>"

definition trace_intent :: "event list" where
  "trace_intent =
     [Log [Str ''Intent:'',
           IntentObj (Some \<lparr>unsigned_transaction = ''0xdeadbeef'',
                            contract_address = ''0xother''\<rparr>),
           Str nl],
      Confirm signPrompt]"

definition stake_tx :: transaction where
  "stake_tx = \<lparr>tx_from = ''0xsender'', tx_to = holesky_addr,
     tx_value = ''32000000000000000000'', tx_data = Some ''0xdeadbeef''\<rparr>"

definition trace_broadcast :: "event list" where
  "trace_broadcast =
     [Log [Str (nl @ ''Processing ...'' @ nl)],
      SendTransaction (providerUrl env_holesky) stake_tx,
      Log [Str ''Receipt:'', ReceiptObj (Receipt ''0xhash''), Str nl]]"

section \<open>Decimal text: reading back what was written\<close>

lemma digit_val_digit: "0 \<le> d \<Longrightarrow> d < 10 \<Longrightarrow> digit_val (digit d) = Some d"
proof -
  assume "0 \<le> d" "d < 10"
  then have "d = 0 \<or> d = 1 \<or> d = 2 \<or> d = 3 \<or> d = 4 \<or> d = 5 \<or> d = 6 \<or> d = 7 \<or> d = 8 \<or> d = 9"
    by arith
  then show ?thesis by (auto simp: digit_def digit_val_def)
qed

lemma is_digit_digit: "d < 10 \<Longrightarrow> is_digit (digit d)"
proof (cases "0 \<le> d")
  case True
  assume "d < 10"
  with True show ?thesis by (simp add: is_digit_def digit_val_digit)
next
  case False
  then have "digit d = digit 0" by (simp add: digit_def)
  then show ?thesis by (simp add: is_digit_def digit_val_digit)
qed

lemma is_digit_not_point: "is_digit c \<Longrightarrow> c \<noteq> CHR ''.''"
  by (auto simp: is_digit_def digit_val_def)

lemma is_digit_not_minus: "is_digit c \<Longrightarrow> c \<noteq> CHR ''-''"
  by (auto simp: is_digit_def digit_val_def)

lemma show_nat_digits: "\<forall>c \<in> set (show_nat n). is_digit c"
proof (induction n rule: show_nat.induct)
  case (1 n)
  show ?case
  proof (cases "n < 10")
    case True
    then show ?thesis by (subst show_nat.simps) (simp add: is_digit_digit)
  next
    case False
    with 1 show ?thesis by (subst show_nat.simps) (simp add: is_digit_digit)
  qed
qed

lemma show_nat_nonempty: "show_nat n \<noteq> []"
  by (subst show_nat.simps) simp

lemma read_digits_append:
  "read_digits acc (xs @ ys) =
     (case read_digits acc xs of None \<Rightarrow> None | Some a \<Rightarrow> read_digits a ys)"
  by (induction xs arbitrary: acc) (auto split: option.splits)

lemma read_digits_show_nat:
  "0 \<le> n \<Longrightarrow> read_digits acc (show_nat n) = Some (acc * 10 ^ length (show_nat n) + n)"
proof (induction n arbitrary: acc rule: show_nat.induct)
  case (1 n)
  show ?case
  proof (cases "n < 10")
    case True
    with 1(2) show ?thesis
      by (subst (1 2) show_nat.simps) (simp add: digit_val_digit)
  next
    case False
    then have ge: "0 \<le> n div 10" using 1(2) by simp
    have d: "digit_val (digit (n mod 10)) = Some (n mod 10)"
      by (simp add: digit_val_digit)
    have unfold: "show_nat n = show_nat (n div 10) @ [digit (n mod 10)]"
      using False by (subst show_nat.simps) simp
    show ?thesis
      unfolding unfold
      by (simp add: read_digits_append "1.IH"[OF False ge] d algebra_simps)
  qed
qed

lemma read_digits_zeros:
  "read_digits acc (replicate k (CHR ''0'')) = Some (acc * 10 ^ k)"
  by (induction k arbitrary: acc) (auto simp: digit_val_def)

lemma read_digits_total:
  "\<forall>c \<in> set s. is_digit c \<Longrightarrow> \<exists>a. read_digits acc s = Some a"
  by (induction s arbitrary: acc) (auto simp: is_digit_def)

lemma length_show_nat: "0 < d \<Longrightarrow> n < 10 ^ d \<Longrightarrow> length (show_nat n) \<le> d"
proof (induction n arbitrary: d rule: show_nat.induct)
  case (1 n)
  show ?case
  proof (cases "n < 10")
    case True
    then show ?thesis using 1(2) by (subst show_nat.simps) simp
  next
    case False
    from False 1(3) have "1 < d" 
      by (cases "d = 1") (use 1(2) in auto)
    then obtain d' where d': "d = Suc d'" "0 < d'" by (cases d) auto
    from 1(3) d' have "n div 10 < 10 ^ d'" by auto
    from "1.IH"[OF False d'(2) this] show ?thesis
      using False d' by (subst show_nat.simps) simp
  qed
qed

lemma takeWhile_eq_replicate: "takeWhile (\<lambda>c. c = x) ys = replicate (length (takeWhile (\<lambda>c. c = x) ys)) x"
  by (induction ys) auto

lemma strip_zeros_decomp: "\<exists>z. s = strip_zeros s @ replicate z (CHR ''0'')"
proof -
  let ?P = "\<lambda>c. c = CHR ''0''"
  have "rev s = takeWhile ?P (rev s) @ dropWhile ?P (rev s)" by simp
  then have "s = rev (dropWhile ?P (rev s)) @ rev (takeWhile ?P (rev s))"
    by (metis rev_append rev_rev_ident)
  moreover have "rev (takeWhile ?P (rev s)) = replicate (length (takeWhile ?P (rev s))) (CHR ''0'')"
    by (subst takeWhile_eq_replicate) simp
  ultimately show ?thesis unfolding strip_zeros_def by metis
qed

lemma strip_zeros_subset: "set (strip_zeros s) \<subseteq> set s"
  unfolding strip_zeros_def using set_dropWhileD by fastforce

lemma takeWhile_digits:
  "\<forall>c \<in> set xs. is_digit c \<Longrightarrow>
     takeWhile (\<lambda>c. c \<noteq> CHR ''.'') (xs @ (if F = [] then [] else CHR ''.'' # F)) = xs"
  by (induction xs) (auto simp: is_digit_not_point)

lemma dropWhile_digits:
  "\<forall>c \<in> set xs. is_digit c \<Longrightarrow>
     drop 1 (dropWhile (\<lambda>c. c \<noteq> CHR ''.'') (xs @ (if F = [] then [] else CHR ''.'' # F))) = F"
  by (induction xs) (auto simp: is_digit_not_point)

text \<open>The fractional digits, before and after the trailing zeros are removed.\<close>

lemma read_fraction:
  assumes r: "0 \<le> r" "r < 10 ^ d"
  defines "F0 \<equiv> pad_start d (show_nat r)"
  shows "\<exists>a. read_digits q (strip_zeros F0) = Some a \<and> length (strip_zeros F0) \<le> d \<and>
           a * 10 ^ (d - length (strip_zeros F0)) = q * 10 ^ d + r"
proof (cases "d = 0")
  case True
  with r have "r = 0" by simp
  have s0: "show_nat 0 = ''0''"
    by (subst show_nat.simps) (simp add: digit_def)
  have "F0 = ''0''"
    using True \<open>r = 0\<close> by (simp add: F0_def pad_start_def s0)
  then have "strip_zeros F0 = []" by (simp add: strip_zeros_def)
  with True \<open>r = 0\<close> show ?thesis by simp
next
  case False
  then have len: "length (show_nat r) \<le> d" using r by (simp add: length_show_nat)
  then have lenF0: "length F0 = d" by (simp add: F0_def pad_start_def)
  have z0: "is_digit (CHR ''0'')"
    by (simp add: is_digit_def digit_val_def)
  have digs: "\<forall>c \<in> set F0. is_digit c"
    using show_nat_digits[of r] z0 by (auto simp: F0_def pad_start_def)
  have full: "read_digits q F0 = Some (q * 10 ^ d + r)"
  proof -
    have "read_digits q F0 = read_digits (q * 10 ^ (d - length (show_nat r))) (show_nat r)"
      by (simp add: F0_def pad_start_def read_digits_append read_digits_zeros)
    also have "\<dots> = Some (q * 10 ^ (d - length (show_nat r)) * 10 ^ length (show_nat r) + r)"
      using r(1) by (rule read_digits_show_nat)
    also have "q * 10 ^ (d - length (show_nat r)) * 10 ^ length (show_nat r) = q * 10 ^ d"
      using len by (simp add: mult.assoc flip: power_add)
    finally show ?thesis .
  qed
  obtain z where z: "F0 = strip_zeros F0 @ replicate z (CHR ''0'')"
    using strip_zeros_decomp by blast
  then have lz: "d = length (strip_zeros F0) + z"
    using lenF0 by (metis length_append length_replicate)
  have "\<forall>c \<in> set (strip_zeros F0). is_digit c"
    using digs strip_zeros_subset by blast
  then obtain a where a: "read_digits q (strip_zeros F0) = Some a"
    using read_digits_total by blast
  have "read_digits q F0 = Some (a * 10 ^ z)"
    by (subst z) (simp add: read_digits_append a read_digits_zeros)
  with full have "a * 10 ^ z = q * 10 ^ d + r" by simp
  with a lz show ?thesis by simp
qed

lemma read_show_decimal:
  "\<exists>c' d'. read_decimal (show_decimal c d) = Some (c', d') \<and> d' \<le> d \<and> c' * 10 ^ (d - d') = c"
proof -
  define a where "a = \<bar>c\<bar>"
  define q where "q = a div 10 ^ d"
  define r where "r = a mod 10 ^ d"
  define F where "F = strip_zeros (pad_start d (show_nat r))"
  define body where "body = show_nat q @ (if F = [] then [] else CHR ''.'' # F)"
  have q0: "0 \<le> q" and r0: "0 \<le> r" and rd: "r < 10 ^ d"
    by (simp_all add: q_def r_def a_def pos_imp_zdiv_nonneg_iff)
  have shown: "show_decimal c d = (if c < 0 then [CHR ''-''] else []) @ body"
    by (simp add: show_decimal_def Let_def body_def F_def r_def q_def a_def)
  have dq: "\<forall>c \<in> set (show_nat q). is_digit c" by (rule show_nat_digits)
  have hd_body: "body \<noteq> [] \<and> hd body \<noteq> CHR ''-''"
    using dq show_nat_nonempty[of q]
    by (cases "show_nat q") (auto simp: body_def is_digit_not_minus)
  have ip: "takeWhile (\<lambda>c. c \<noteq> CHR ''.'') body = show_nat q"
    unfolding body_def using dq by (rule takeWhile_digits)
  have fp: "drop 1 (dropWhile (\<lambda>c. c \<noteq> CHR ''.'') body) = F"
    unfolding body_def using dq by (rule dropWhile_digits)
  obtain m where m: "read_digits q F = Some m" "length F \<le> d"
      "m * 10 ^ (d - length F) = q * 10 ^ d + r"
    using read_fraction[OF r0 rd, of q] unfolding F_def by blast
  have rd0: "read_digits 0 (show_nat q @ F) = Some m"
    by (simp add: read_digits_append read_digits_show_nat[OF q0] m(1))
  have val: "q * 10 ^ d + r = a"
    unfolding q_def r_def by (rule div_mult_mod_eq)
  show ?thesis
  proof (cases "c < 0")
    case True
    then have "read_decimal (show_decimal c d) = Some (- m, length F)"
      using hd_body show_nat_nonempty[of q]
      by (simp add: shown read_decimal_def Let_def ip fp[unfolded One_nat_def] rd0)
    moreover have "- m * 10 ^ (d - length F) = c"
      using m(3) val True by (simp add: a_def)
    ultimately show ?thesis using m(2) by blast
  next
    case False
    then have "read_decimal (show_decimal c d) = Some (m, length F)"
      using hd_body show_nat_nonempty[of q]
      by (simp add: shown read_decimal_def Let_def ip fp[unfolded One_nat_def] rd0)
    moreover have "m * 10 ^ (d - length F) = c"
      using m(3) val False by (simp add: a_def)
    ultimately show ?thesis using m(2) by blast
  qed
qed

lemma show_decimal_0: "show_decimal c 0 = show_int c"
proof -
  have "strip_zeros (pad_start 0 (show_nat 0)) = []"
    by (subst show_nat.simps) (simp add: strip_zeros_def pad_start_def digit_def)
  then show ?thesis
    by (auto simp: show_decimal_def show_int_def Let_def)
qed

lemma read_show_int: "read_decimal (show_int n) = Some (n, 0)"
  using read_show_decimal[of n 0] by (auto simp: show_decimal_0)

lemma fromWei_show_int:
  "unit_decimals u = Some k \<Longrightarrow> fromWei (OfString (show_int n)) u = Inr (show_decimal n k)"
  by (simp add: fromWei_def to_decimal_def read_show_int)

lemma toWei_show_decimal:
  assumes "unit_decimals u = Some k"
  shows "toWei (OfString (show_decimal n k)) u = Inr (show_int n)"
proof -
  obtain c' d' where rd: "read_decimal (show_decimal n k) = Some (c', d')"
      "d' \<le> k" "c' * 10 ^ (k - d') = n"
    using read_show_decimal by blast
  have split: "(10::int) ^ k = 10 ^ (k - d') * 10 ^ d'"
    using rd(2) by (simp flip: power_add)
  have "c' * 10 ^ k = n * 10 ^ d'"
    using rd(3) by (simp add: split)
  then show ?thesis
    using assms by (simp add: toWei_def to_decimal_def rd(1))
qed


lemma fromWei_balance: "fromWei (OfString (show_int n)) ''ether'' = Inr (show_decimal n 18)"
  by (rule fromWei_show_int) (simp add: unit_decimals_def)

section \<open>The constants of the script, evaluated\<close>

lemma amountInETH_text: "Number_toString amountInETH = ''0.000001''"
  by code_simp

lemma amountInGwei_text: "Number_toString amountInGwei = ''32000000000''"
  by code_simp

lemma toWei_amountInETH: "toWei (OfNumber amountInETH) ''ether'' = Inr ''1000000000000''"
  by code_simp

lemma toWei_amountInGwei: "toWei (OfNumber amountInGwei) ''gwei'' = Inr ''32000000000000000000''"
  by code_simp

lemma show_int_deposit: "show_int 32000000000 = ''32000000000''"
  by code_simp



lemma balance_text: "show_decimal 33000000000000000000 18 = ''33''"
  by code_simp

section \<open>The script, path by path\<close>

lemma prompts_distinct:
  "sendPrompt e \<noteq> createPrompt e' a" "createPrompt e' a \<noteq> sendPrompt e"
  "sendPrompt e \<noteq> signPrompt" "signPrompt \<noteq> sendPrompt e"
  "createPrompt e a \<noteq> signPrompt" "signPrompt \<noteq> createPrompt e a"
  by (simp_all add: sendPrompt_def createPrompt_def signPrompt_def)

lemmas io_defs = andThen_def finish_def log_def exit_def attempt_def call_def ask_def auth_def
  pure_def

lemma stakeWithSteak_cases:
  "stakeWithSteak e w addr sender =
    (let k = STAKING_API_KEY e; url = providerUrl e;
         body = \<lparr>stakes = [\<lparr>amount = ''32000000000'', withdrawal_address = sender\<rparr>]\<rparr>;
         metadata = \<lparr>network = NETWORK e\<rparr>;
         t1 = [Log [Str steaks], Auth k, Confirm (createPrompt e addr)];
         t2 = t1 @ [Log [Str (nl @ ''Creating the unsigned transaction ...'' @ nl)],
                    PostEthereumStakeIntent body metadata]
     in if \<not> confirm w (createPrompt e addr) then (t1 @ [ProcessExit 0], Inl (Exited 0))
        else (case postEthereumStakeIntent w k body metadata of
           Inl err \<Rightarrow> (t2, Inl (Uncaught err))
         | Inr data \<Rightarrow>
            (let t3 = t2 @ [Log [Str ''Intent:'', IntentObj (ethereum data), Str nl],
                           Confirm signPrompt];
                 t4 = t3 @ [Log [Str (nl @ ''Processing ...'' @ nl)]]
             in if \<not> confirm w signPrompt then (t3 @ [ProcessExit 0], Inl (Exited 0))
                else (case utils_toWei w (OfNumber amountInGwei) ''gwei'' of
                   Inl err \<Rightarrow> (t4, Inl (Uncaught err))
                 | Inr wei \<Rightarrow>
                    (let tx = \<lparr>tx_from = sender, tx_to = addr, tx_value = wei,
                               tx_data = map_option unsigned_transaction (ethereum data)\<rparr>;
                         t5 = t4 @ [SendTransaction url tx]
                     in (case sendTransaction w url tx of
                           Inl err \<Rightarrow> (t5, Inl (Uncaught err))
                         | Inr receipt \<Rightarrow>
                             (t5 @ [Log [Str ''Receipt:'', ReceiptObj receipt, Str nl]],
                              Inr ())))))))"
  by (simp add: stakeWithSteak_def io_defs Let_def amountInGwei_text split: sum.splits)

lemma sendToReceiver_cases:
  "sendToReceiver e w sender =
    (let url = providerUrl e;
         t1 = [Log [Str (nl @ ''Sending to the receiver ...'' @ nl)]]
     in (case utils_toWei w (OfNumber amountInETH) ''ether'' of
           Inl err \<Rightarrow> (t1, Inl (Uncaught err))
         | Inr wei \<Rightarrow>
            (let tx = \<lparr>tx_from = sender, tx_to = RECEIVER_ADDRESS e, tx_value = wei,
                       tx_data = None\<rparr>;
                 t2 = t1 @ [SendTransaction url tx]
             in (case sendTransaction w url tx of
                   Inl err \<Rightarrow> (t2, Inl (Uncaught err))
                 | Inr receipt \<Rightarrow>
                     (t2 @ [Log [Str ''Receipt:'', ReceiptObj receipt, Str nl]], Inr ())))))"
  by (simp add: sendToReceiver_def io_defs Let_def split: sum.splits)

lemma run_cases:
  "run e w =
    (case contractAddr (NETWORK e) of
       None \<Rightarrow>
         ([Log [Str devils], Log [Str (''Network '' @ NETWORK e @ '' not supported'')],
           ProcessExit 0], Exited 0)
     | Some addr \<Rightarrow>
        (case wallet_add w (PRIVATE_KEY e) of
           Inl err \<Rightarrow> ([Log [Str devils]], Uncaught err)
         | Inr sender \<Rightarrow>
            (let url = providerUrl e;
                 t1 = [Log [Str devils], Log [Str ''Sender Address:'', Str sender, Str nl],
                       GetBalance url sender]
             in (case getBalance w url sender of
                   Inl err \<Rightarrow> (t1, Uncaught err)
                 | Inr balWei \<Rightarrow>
                    (case utils_fromWei w (OfString (show_int balWei)) ''ether'' of
                       Inl err \<Rightarrow> (t1, Uncaught err)
                     | Inr balance \<Rightarrow>
                        (let t2 = t1 @ [Log [Str (''Sender Balance: '' @ balance @ '' ETH'' @ nl)],
                                       Confirm (sendPrompt e)];
                             staking = stakeWithSteak e w addr sender
                         in if confirm w (sendPrompt e)
                            then (case sendToReceiver e w sender of
                                    (t3, Inl out) \<Rightarrow> (t2 @ t3, out)
                                  | (t3, Inr _) \<Rightarrow>
                                      finish (t2 @ t3 @ fst staking, snd staking))
                            else finish (t2 @ fst staking, snd staking)))))))"
  by (simp add: run_def io_defs Let_def split: option.splits sum.splits prod.splits)

lemmas flow_cases = run_cases stakeWithSteak_cases sendToReceiver_cases finish_def Let_def

section \<open>Three example runs\<close>

lemmas example_defs = env_holesky_def env_sepolia_def world_yes_def world_no_def
  world_no_sign_def holesky_addr_def trace_front_def trace_transfer_def trace_auth_def
  stake_request_def trace_intent_def stake_tx_def trace_broadcast_def contractAddr_def
  balance_text fromWei_balance toWei_amountInETH toWei_amountInGwei

lemma run_holesky_yes:
  "run env_holesky world_yes =
     (trace_front @ trace_transfer @ trace_auth @
      Log [Str (nl @ ''Creating the unsigned transaction ...'' @ nl)] # stake_request #
      trace_intent @ trace_broadcast, Completed)"
  by (simp add: flow_cases example_defs)

lemma run_holesky_no:
  "run env_holesky world_no = (trace_front @ trace_auth @ [ProcessExit 0], Exited 0)"
  by (simp add: flow_cases example_defs)

lemma run_holesky_no_sign:
  "run env_holesky world_no_sign =
     (trace_front @ trace_transfer @ trace_auth @
      Log [Str (nl @ ''Creating the unsigned transaction ...'' @ nl)] # stake_request #
      trace_intent @ [ProcessExit 0], Exited 0)"
  by (simp add: flow_cases example_defs prompts_distinct)

section \<open>Declined prompts\<close>

lemma dropWhile_suffix: "dropWhile P t = s \<Longrightarrow> \<exists>pre. t = pre @ s"
  by (metis takeWhile_dropWhile_id)

lemma declined_create_aux:
  assumes "contractAddr (NETWORK e) = Some addr"
    "Confirm (createPrompt e addr) \<in> set (fst (run e w))"
    "\<not> confirm w (createPrompt e addr)"
  shows "snd (run e w) = Exited 0 \<and>
         dropWhile (\<lambda>ev. ev \<noteq> Confirm (createPrompt e addr)) (fst (run e w)) =
           [Confirm (createPrompt e addr), ProcessExit 0] \<and>
         stake_intents (fst (run e w)) = [] \<and>
         broadcasts (fst (run e w)) =
           broadcasts (takeWhile (\<lambda>ev. ev \<noteq> Auth (STAKING_API_KEY e)) (fst (run e w)))"
  using assms
  by (auto simp: flow_cases broadcasts_def stake_intents_def prompts_distinct
      split: option.splits sum.splits prod.splits if_splits)

lemma declined_sign_aux:
  assumes "Confirm signPrompt \<in> set (fst (run e w))" "\<not> confirm w signPrompt"
  shows "snd (run e w) = Exited 0 \<and>
         dropWhile (\<lambda>ev. ev \<noteq> Confirm signPrompt) (fst (run e w)) =
           [Confirm signPrompt, ProcessExit 0] \<and>
         broadcasts (fst (run e w)) =
           broadcasts (takeWhile (\<lambda>ev. ev \<noteq> Auth (STAKING_API_KEY e)) (fst (run e w)))"
  using assms
  by (auto simp: flow_cases broadcasts_def prompts_distinct
      split: option.splits sum.splits prod.splits if_splits)

section \<open>Claims\<close>

text \<open>
  C1. For every network identifier other than "mainnet" and "holesky" the script prints the
  banner and the diagnostic line, calls \<^verbatim>\<open>process.exit(0)\<close>, and nothing else happens: the
  trace holds no balance query, no transfer and no staking API call.
\<close>

theorem unsupported_network_exits:
  assumes "NETWORK e \<noteq> ''mainnet''" "NETWORK e \<noteq> ''holesky''"
  shows "run e w = ([Log [Str devils], Log [Str (''Network '' @ NETWORK e @ '' not supported'')],
                     ProcessExit 0], Exited 0) \<and>
         network_calls (fst (run e w)) = []"
  using assms by (simp add: run_cases contractAddr_def network_calls_def)

theorem unsupported_network_exits_witness:
  "NETWORK env_sepolia \<noteq> ''mainnet'' \<and> NETWORK env_sepolia \<noteq> ''holesky'' \<and>
   run env_sepolia world_yes =
     ([Log [Str devils], Log [Str ''Network sepolia not supported''], ProcessExit 0], Exited 0) \<and>
   network_calls (fst (run env_sepolia world_yes)) = []"
  using unsupported_network_exits[of env_sepolia world_yes]
  by (simp add: env_sepolia_def env_holesky_def network_calls_def)

text \<open>
  C2. For every integer amount of wei \<open>n\<close>, written as decimal text: \<open>fromWei\<close> to ether
  followed by \<open>toWei\<close> from ether gives the text of \<open>n\<close> again, the same holds for gwei,
  and that text reads back as the integer \<open>n\<close>. (\<open>fromWei\<close> and \<open>toWei\<close> are the
  definitions modelled from the spec.)
\<close>

theorem unit_conversion_round_trip:
  "(\<exists>s. fromWei (OfString (show_int n)) ''ether'' = Inr s \<and>
        toWei (OfString s) ''ether'' = Inr (show_int n)) \<and>
   (\<exists>s. fromWei (OfString (show_int n)) ''gwei'' = Inr s \<and>
        toWei (OfString s) ''gwei'' = Inr (show_int n)) \<and>
   read_decimal (show_int n) = Some (n, 0)"
proof -
  have e: "unit_decimals ''ether'' = Some 18" and g: "unit_decimals ''gwei'' = Some 9"
    by (simp_all add: unit_decimals_def)
  show ?thesis
    using fromWei_show_int[OF e, of n] toWei_show_decimal[OF e, of n]
      fromWei_show_int[OF g, of n] toWei_show_decimal[OF g, of n] read_show_int[of n]
    by simp
qed

text \<open>The representative amounts of the spec, as the texts the two functions produce.\<close>

lemma unit_conversion_examples:
  "fromWei (OfString ''1'') ''ether'' = Inr ''0.000000000000000001''"
  "toWei (OfString ''0.000000000000000001'') ''ether'' = Inr ''1''"
  "fromWei (OfString ''1000000000'') ''ether'' = Inr ''0.000000001''"
  "toWei (OfString ''0.000000001'') ''ether'' = Inr ''1000000000''"
  "fromWei (OfString ''1000000000000000000'') ''ether'' = Inr ''1''"
  "toWei (OfString ''1'') ''ether'' = Inr ''1000000000000000000''"
  "fromWei (OfString ''32000000000'') ''gwei'' = Inr ''32''"
  "toWei (OfString ''32'') ''gwei'' = Inr ''32000000000''"
  by code_simp+

text \<open>
  C3. Every stake-intent request in a run has exactly one stake entry; its amount is the
  decimal text of the integer \<open>32 * 10 ^ 9\<close>, its withdrawal address is the address of the
  sender's account, and the request names the configured network.
\<close>

theorem stake_intent_request:
  assumes "PostEthereumStakeIntent b m \<in> set (fst (run e w))"
  shows "\<exists>sender. wallet_add w (PRIVATE_KEY e) = Inr sender \<and>
           b = \<lparr>stakes = [\<lparr>amount = show_int (32 * 10 ^ 9), withdrawal_address = sender\<rparr>]\<rparr> \<and>
           m = \<lparr>network = NETWORK e\<rparr>"
  using assms
  by (auto simp: flow_cases show_int_deposit
      split: option.splits sum.splits prod.splits if_splits)

theorem stake_intent_request_witness:
  "stake_request \<in> set (fst (run env_holesky world_yes)) \<and>
   (\<exists>sender. wallet_add world_yes (PRIVATE_KEY env_holesky) = Inr sender \<and>
      \<lparr>stakes = [\<lparr>amount = ''32000000000'', withdrawal_address = ''0xsender''\<rparr>]\<rparr> =
      \<lparr>stakes = [\<lparr>amount = show_int (32 * 10 ^ 9), withdrawal_address = sender\<rparr>]\<rparr> \<and>
      \<lparr>network = ''holesky''\<rparr> = \<lparr>network = NETWORK env_holesky\<rparr>)"
proof -
  have h: "PostEthereumStakeIntent
     \<lparr>stakes = [\<lparr>amount = ''32000000000'', withdrawal_address = ''0xsender''\<rparr>]\<rparr>
     \<lparr>network = ''holesky''\<rparr> \<in> set (fst (run env_holesky world_yes))"
    by (simp add: run_holesky_yes stake_request_def)
  from h stake_intent_request[OF h] show ?thesis
    by (simp add: stake_request_def)
qed

text \<open>
  C4. When the test-transfer prompt is shown and declined, the trace goes from that prompt
  straight to the steak banner, the authentication and the create-intent prompt: the
  events up to the authentication hold no broadcast transaction, so the test transfer of
  lines 46-50 is not sent, and the staking step is reached.
\<close>

theorem declined_test_transfer:
  assumes "Confirm (sendPrompt e) \<in> set (fst (run e w))" "\<not> confirm w (sendPrompt e)"
  shows "\<exists>addr sender balWei balance rest.
           contractAddr (NETWORK e) = Some addr \<and>
           wallet_add w (PRIVATE_KEY e) = Inr sender \<and>
           getBalance w (providerUrl e) sender = Inr balWei \<and>
           utils_fromWei w (OfString (show_int balWei)) ''ether'' = Inr balance \<and>
           fst (run e w) =
             [Log [Str devils],
              Log [Str ''Sender Address:'', Str sender, Str nl],
              GetBalance (providerUrl e) sender,
              Log [Str (''Sender Balance: '' @ balance @ '' ETH'' @ nl)],
              Confirm (sendPrompt e),
              Log [Str steaks],
              Auth (STAKING_API_KEY e),
              Confirm (createPrompt e addr)] @ rest \<and>
           broadcasts (takeWhile (\<lambda>ev. ev \<noteq> Auth (STAKING_API_KEY e)) (fst (run e w))) = []"
  using assms
  by (auto simp: flow_cases broadcasts_def prompts_distinct
      split: option.splits sum.splits prod.splits if_splits)

theorem declined_test_transfer_witness:
  "Confirm (sendPrompt env_holesky) \<in> set (fst (run env_holesky world_no)) \<and>
   \<not> confirm world_no (sendPrompt env_holesky) \<and>
   (\<exists>addr sender balWei balance rest.
           contractAddr (NETWORK env_holesky) = Some addr \<and>
           wallet_add world_no (PRIVATE_KEY env_holesky) = Inr sender \<and>
           getBalance world_no (providerUrl env_holesky) sender = Inr balWei \<and>
           utils_fromWei world_no (OfString (show_int balWei)) ''ether'' = Inr balance \<and>
           fst (run env_holesky world_no) =
             [Log [Str devils],
              Log [Str ''Sender Address:'', Str sender, Str nl],
              GetBalance (providerUrl env_holesky) sender,
              Log [Str (''Sender Balance: '' @ balance @ '' ETH'' @ nl)],
              Confirm (sendPrompt env_holesky),
              Log [Str steaks],
              Auth (STAKING_API_KEY env_holesky),
              Confirm (createPrompt env_holesky addr)] @ rest \<and>
           broadcasts (takeWhile (\<lambda>ev. ev \<noteq> Auth (STAKING_API_KEY env_holesky))
             (fst (run env_holesky world_no))) = [])"
proof -
  have h1: "Confirm (sendPrompt env_holesky) \<in> set (fst (run env_holesky world_no))"
    by (simp add: run_holesky_no trace_front_def)
  have h2: "\<not> confirm world_no (sendPrompt env_holesky)"
    by (simp add: world_no_def world_yes_def)
  from h1 h2 declined_test_transfer[OF h1 h2] show ?thesis by blast
qed

text \<open>
  C5. Let \<open>addr\<close> be the contract address selected for the network. When the create-intent
  prompt is shown and declined, the run ends by \<^verbatim>\<open>process.exit(0)\<close> right after the prompt
  and no stake-intent request was sent. When the sign-and-send prompt is shown and
  declined, the run ends by \<^verbatim>\<open>process.exit(0)\<close> right after the prompt. In both cases every
  transaction broadcast in the run was broadcast before the authentication, that is, in
  the test-transfer step: the staking transaction of lines 88-93 is not sent.
\<close>

theorem declined_staking_prompts:
  "(contractAddr (NETWORK e) = Some addr \<and>
    Confirm (createPrompt e addr) \<in> set (fst (run e w)) \<and> \<not> confirm w (createPrompt e addr) \<longrightarrow>
      snd (run e w) = Exited 0 \<and>
      (\<exists>pre. fst (run e w) = pre @ [Confirm (createPrompt e addr), ProcessExit 0]) \<and>
      stake_intents (fst (run e w)) = [] \<and>
      broadcasts (fst (run e w)) =
        broadcasts (takeWhile (\<lambda>ev. ev \<noteq> Auth (STAKING_API_KEY e)) (fst (run e w)))) \<and>
   (Confirm signPrompt \<in> set (fst (run e w)) \<and> \<not> confirm w signPrompt \<longrightarrow>
      snd (run e w) = Exited 0 \<and>
      (\<exists>pre. fst (run e w) = pre @ [Confirm signPrompt, ProcessExit 0]) \<and>
      broadcasts (fst (run e w)) =
        broadcasts (takeWhile (\<lambda>ev. ev \<noteq> Auth (STAKING_API_KEY e)) (fst (run e w))))"
  using declined_create_aux[of e addr w] declined_sign_aux[of e w]
    dropWhile_suffix[of "\<lambda>ev. ev \<noteq> Confirm (createPrompt e addr)" "fst (run e w)"]
    dropWhile_suffix[of "\<lambda>ev. ev \<noteq> Confirm signPrompt" "fst (run e w)"]
  by blast

theorem declined_staking_prompts_witness:
  "(contractAddr (NETWORK env_holesky) = Some holesky_addr \<and>
    Confirm (createPrompt env_holesky holesky_addr) \<in> set (fst (run env_holesky world_no)) \<and>
    \<not> confirm world_no (createPrompt env_holesky holesky_addr) \<and>
    snd (run env_holesky world_no) = Exited 0 \<and>
    stake_intents (fst (run env_holesky world_no)) = []) \<and>
   (Confirm signPrompt \<in> set (fst (run env_holesky world_no_sign)) \<and>
    \<not> confirm world_no_sign signPrompt \<and>
    snd (run env_holesky world_no_sign) = Exited 0 \<and>
    broadcasts (fst (run env_holesky world_no_sign)) =
      [\<lparr>tx_from = ''0xsender'', tx_to = ''0xreceiver'', tx_value = ''1000000000000'',
         tx_data = None\<rparr>])"
proof -
  have a1: "contractAddr (NETWORK env_holesky) = Some holesky_addr"
    by (simp add: contractAddr_def env_holesky_def holesky_addr_def)
  have a2: "Confirm (createPrompt env_holesky holesky_addr)
      \<in> set (fst (run env_holesky world_no))"
    by (simp add: run_holesky_no trace_auth_def)
  have a3: "\<not> confirm world_no (createPrompt env_holesky holesky_addr)"
    by (simp add: world_no_def world_yes_def)
  have b1: "Confirm signPrompt \<in> set (fst (run env_holesky world_no_sign))"
    by (simp add: run_holesky_no_sign trace_intent_def)
  have b2: "\<not> confirm world_no_sign signPrompt"
    by (simp add: world_no_sign_def world_yes_def)
  have b3: "broadcasts (fst (run env_holesky world_no_sign)) =
      [\<lparr>tx_from = ''0xsender'', tx_to = ''0xreceiver'', tx_value = ''1000000000000'',
         tx_data = None\<rparr>]"
    by (simp add: run_holesky_no_sign broadcasts_def trace_front_def trace_transfer_def
        trace_auth_def stake_request_def trace_intent_def)
  from a1 a2 a3 b1 b2 b3
    declined_staking_prompts[of env_holesky holesky_addr world_no]
    declined_staking_prompts[of env_holesky holesky_addr world_no_sign]
  show ?thesis by blast
qed

text \<open>
  C6. In every run, whatever the world answers: before a stake-intent request there is a
  balance query in the trace, and that query returned a balance.
\<close>

theorem balance_before_stake_intent:
  assumes "fst (run e w) = xs @ PostEthereumStakeIntent b m # ys"
  shows "\<exists>sender balWei. getBalance w (providerUrl e) sender = Inr balWei \<and>
           GetBalance (providerUrl e) sender \<in> set xs"
  using assms
  by (auto simp: flow_cases Cons_eq_append_conv
      split: option.splits sum.splits prod.splits if_splits)

theorem balance_before_stake_intent_witness:
  "fst (run env_holesky world_yes) =
     (trace_front @ trace_transfer @ trace_auth @
      [Log [Str (nl @ ''Creating the unsigned transaction ...'' @ nl)]]) @
     PostEthereumStakeIntent
       \<lparr>stakes = [\<lparr>amount = ''32000000000'', withdrawal_address = ''0xsender''\<rparr>]\<rparr>
       \<lparr>network = ''holesky''\<rparr> # (trace_intent @ trace_broadcast) \<and>
   (\<exists>sender balWei. getBalance world_yes (providerUrl env_holesky) sender = Inr balWei \<and>
      GetBalance (providerUrl env_holesky) sender
        \<in> set (trace_front @ trace_transfer @ trace_auth @
             [Log [Str (nl @ ''Creating the unsigned transaction ...'' @ nl)]]))"
proof -
  have h: "fst (run env_holesky world_yes) =
     (trace_front @ trace_transfer @ trace_auth @
      [Log [Str (nl @ ''Creating the unsigned transaction ...'' @ nl)]]) @
     PostEthereumStakeIntent
       \<lparr>stakes = [\<lparr>amount = ''32000000000'', withdrawal_address = ''0xsender''\<rparr>]\<rparr>
       \<lparr>network = ''holesky''\<rparr> # (trace_intent @ trace_broadcast)"
    by (simp add: run_holesky_yes stake_request_def)
  from h balance_before_stake_intent[OF h] show ?thesis by blast
qed

text \<open>
  C7. The contract address selected for a network identifier is a function of the
  identifier, and that function is the two-entry table: "mainnet" and "holesky" have the
  two addresses below, and no other identifier has an address.
\<close>

theorem contract_table:
  "contractAddr = [''mainnet'' \<mapsto> ''0x3f124c700fb5e741f128e28985267d44f56b242f'',
                   ''holesky'' \<mapsto> ''0x0b6e07c5ead5596c1f26ca2f6b97050cec853671''] \<and>
   dom contractAddr = {''mainnet'', ''holesky''}"
proof -
  have eq: "contractAddr = [''mainnet'' \<mapsto> ''0x3f124c700fb5e741f128e28985267d44f56b242f'',
                   ''holesky'' \<mapsto> ''0x0b6e07c5ead5596c1f26ca2f6b97050cec853671'']"
    by (rule ext) (simp add: contractAddr_def)
  have "dom contractAddr = {''mainnet'', ''holesky''}"
    by (subst eq) auto
  with eq show ?thesis by blast
qed

text \<open>
  C8, as the spec states it, fails: the run on holesky in which every call succeeds and
  the user accepts every prompt reaches the end of the script, and the number of prompts
  it has shown is not two.
\<close>

theorem two_prompts_counterexample:
  "snd (run env_holesky world_yes) = Completed \<and>
   length (prompts (fst (run env_holesky world_yes))) \<noteq> 2"
  by (simp add: run_holesky_yes prompts_def trace_front_def trace_transfer_def trace_auth_def
      stake_request_def trace_intent_def trace_broadcast_def)

text \<open>
  C8, amended. A run that reaches the end of the script has shown exactly three prompts,
  in this order: the test-transfer prompt, the create-intent prompt and the sign-and-send
  prompt.
\<close>

theorem complete_run_prompts:
  assumes "snd (run e w) = Completed"
  shows "\<exists>addr. contractAddr (NETWORK e) = Some addr \<and>
           prompts (fst (run e w)) = [sendPrompt e, createPrompt e addr, signPrompt] \<and>
           length (prompts (fst (run e w))) = 3"
  using assms
  by (auto simp: flow_cases prompts_def
      split: option.splits sum.splits prod.splits if_splits)

theorem complete_run_prompts_witness:
  "snd (run env_holesky world_yes) = Completed \<and>
   (\<exists>addr. contractAddr (NETWORK env_holesky) = Some addr \<and>
      prompts (fst (run env_holesky world_yes)) =
        [sendPrompt env_holesky, createPrompt env_holesky addr, signPrompt] \<and>
      length (prompts (fst (run env_holesky world_yes))) = 3)"
proof -
  have h: "snd (run env_holesky world_yes) = Completed"
    by (simp add: run_holesky_yes)
  from h complete_run_prompts[OF h] show ?thesis by blast
qed





end
